theory Spec2Isabelle
  imports Complex_Main "HOL-Library.Word"
begin

section \<open>The file client of \<open>src/entities/clients/files.py\<close>\<close>

text \<open>
  \<open>FileClient\<close> wraps an \<open>httpx.Client\<close>: every method sends one request, calls
  \<open>raise_for_status\<close>, decodes the body and returns a value, inside a
  \<open>try\<close>/\<open>except\<close> that logs and raises again. The model below follows the methods line
  by line. Exceptions are values (\<open>Inl\<close> of a sum), the requests put on the wire and the
  file objects opened are kept in an explicit \<open>world\<close> that every method takes and
  returns. What the module calls but does not define (the server behind the transport,
  the JSON decoder of the response, \<open>mimetypes.guess_type\<close>, the schema class
  \<open>FileResponse\<close>) is a field of the record \<open>env\<close>, so every theorem holds for every
  such collaborator. The calls to \<open>logging_utility\<close> write a log line and nothing else;
  they are left out.
\<close>

subsection \<open>Data\<close>

type_synonym byte = "8 word"

text \<open>The Python value that \<open>response.json()\<close> returns; \<open>JNull\<close> is \<open>None\<close>.\<close>

datatype json =
    JNull
  | JBool bool
  | JInt int
  | JFloat rat
  | JStr string
  | JArr "json list"
  | JObj "(string \<times> json) list"

datatype http_method = GET | POST | DELETE

text \<open>
  A request as \<open>httpx.Client\<close> builds it: the client's base URL and headers, the relative
  URL given by the method, the form fields (\<open>data=\<close>) and the \<open>file\<close> part (\<open>files=\<close>:
  file name, bytes read from the file object, content type).
\<close>

record request =
  req_method :: http_method
  base :: string
  target :: string
  headers :: "(string \<times> string) list"
  form_data :: "(string \<times> string) list"
  file_part :: "(string \<times> byte list \<times> string) option"

record response =
  status_code :: nat
  content :: "byte list"

text \<open>
  The exception classes that the module names or that its calls raise.
  \<open>ValidationError\<close> is pydantic's class, imported by the module; its argument is
  \<open>str(e)\<close>. \<open>HTTPStatusError\<close> carries the response, as in httpx.
\<close>

datatype exn =
    HTTPStatusError response
  | ValidationError string
  | ValueError string
  | JSONDecodeError string
  | AttributeError string
  | FileNotFoundError string
  | RequestError string

text \<open>
  A file object returned by \<open>open(path, 'rb')\<close>: the path, the bytes a read returns, and
  whether it has been closed.
\<close>

record file_object =
  fo_path :: string
  fo_data :: "byte list"
  fo_closed :: bool

text \<open>
  The world outside the client: the local files, every file object created so far (a
  handle is an index into this list), and the requests sent so far, oldest first.
\<close>

record world =
  files :: "string \<rightharpoonup> byte list"
  handles :: "file_object list"
  sent :: "request list"

record 'r env =
  server :: "request \<Rightarrow> exn + response"
  json_loads :: "byte list \<Rightarrow> exn + json"
  guess_type :: "string \<Rightarrow> string option"
  model_validate :: "json \<Rightarrow> exn + 'r"

record httpx_client =
  hc_base_url :: string
  hc_headers :: "(string \<times> string) list"

record FileClient =
  base_url :: string
  api_key :: "string option"
  client :: httpx_client

subsection \<open>Construction\<close>

text \<open>
  \<open>headers={"Authorization": f"Bearer {self.api_key}"} if self.api_key else {}\<close>: the
  test is Python truthiness, false for \<open>None\<close> and for the empty string.
\<close>

definition FileClient_init :: "string \<Rightarrow> string option \<Rightarrow> FileClient" where
  "FileClient_init b k =
     \<lparr>base_url = b, api_key = k,
      client = \<lparr>hc_base_url = b,
                hc_headers = (case k of
                                None \<Rightarrow> []
                              | Some s \<Rightarrow> if s \<noteq> [] then [(''Authorization'', ''Bearer '' @ s)]
                                         else [])\<rparr>\<rparr>"

subsection \<open>The transport\<close>

definition build_request ::
  "httpx_client \<Rightarrow> http_method \<Rightarrow> string \<Rightarrow> (string \<times> string) list \<Rightarrow>
   (string \<times> byte list \<times> string) option \<Rightarrow> request" where
  "build_request hc m u d f =
     \<lparr>req_method = m, base = hc_base_url hc, target = u, headers = hc_headers hc,
      form_data = d, file_part = f\<rparr>"

text \<open>\<open>self.client.get\<close>, \<open>.post\<close>, \<open>.delete\<close>: the request is recorded, the server answers or the transport raises.\<close>

definition client_request ::
  "'r env \<Rightarrow> httpx_client \<Rightarrow> http_method \<Rightarrow> string \<Rightarrow> (string \<times> string) list \<Rightarrow>
   (string \<times> byte list \<times> string) option \<Rightarrow> world \<Rightarrow> (exn + response) \<times> world" where
  "client_request env hc m u d f w =
     (let req = build_request hc m u d f
      in (server env req, w\<lparr>sent := sent w @ [req]\<rparr>))"

text \<open>httpx: \<open>is_success\<close> is \<open>200 <= status_code <= 299\<close>; \<open>raise_for_status\<close> raises for every other status.\<close>

definition is_success :: "response \<Rightarrow> bool" where
  "is_success r = (200 \<le> status_code r \<and> status_code r \<le> 299)"

definition raise_for_status :: "response \<Rightarrow> exn + response" where
  "raise_for_status r = (if is_success r then Inr r else Inl (HTTPStatusError r))"

definition response_json :: "'r env \<Rightarrow> response \<Rightarrow> exn + json" where
  "response_json env r = json_loads env (content r)"

subsection \<open>The \<open>except\<close> clauses\<close>

text \<open>
  Methods that validate have three clauses, tried in this order:
  \<open>except ValidationError as e: raise ValueError(f"Validation error: {e}")\<close>,
  \<open>except httpx.HTTPStatusError: raise\<close>, \<open>except Exception: raise\<close>.
  The other methods have the last two only.
\<close>

fun except_validating :: "exn \<Rightarrow> exn" where
  "except_validating (ValidationError s) = ValueError (''Validation error: '' @ s)"
| "except_validating (HTTPStatusError r) = HTTPStatusError r"
| "except_validating e = e"

fun except_plain :: "exn \<Rightarrow> exn" where
  "except_plain (HTTPStatusError r) = HTTPStatusError r"
| "except_plain e = e"

definition try_except :: "(exn \<Rightarrow> exn) \<Rightarrow> (exn + 'a) \<Rightarrow> exn + 'a" where
  "try_except h r = (case r of Inl e \<Rightarrow> Inl (h e) | Inr v \<Rightarrow> Inr v)"

subsection \<open>Retrieve and delete\<close>

text \<open>
  The three lines shared by both uploads and \<open>retrieve_file\<close>:
  \<open>response.raise_for_status(); file_data = response.json();
  validated_response = ent_validator.FileResponse.model_validate(file_data)\<close>.
\<close>

definition validated_response :: "'r env \<Rightarrow> (exn + response) \<Rightarrow> exn + 'r" where
  "validated_response env x =
     (case x of
        Inl e \<Rightarrow> Inl e
      | Inr response \<Rightarrow>
          (case raise_for_status response of
             Inl e \<Rightarrow> Inl e
           | Inr r \<Rightarrow>
               (case response_json env r of
                  Inl e \<Rightarrow> Inl e
                | Inr file_data \<Rightarrow> model_validate env file_data)))"

definition retrieve_file ::
  "'r env \<Rightarrow> FileClient \<Rightarrow> string \<Rightarrow> world \<Rightarrow> (exn + 'r) \<times> world" where
  "retrieve_file env self file_id w =
     (let (x, w') = client_request env (client self) GET (''/v1/uploads/'' @ file_id) [] None w
      in (try_except except_validating (validated_response env x), w'))"

text \<open>The two lines shared by the methods that decode without validating.\<close>

definition decoded_response :: "'r env \<Rightarrow> (exn + response) \<Rightarrow> exn + json" where
  "decoded_response env x =
     (case x of
        Inl e \<Rightarrow> Inl e
      | Inr response \<Rightarrow>
          (case raise_for_status response of
             Inl e \<Rightarrow> Inl e
           | Inr r \<Rightarrow> response_json env r))"

definition delete_file ::
  "'r env \<Rightarrow> FileClient \<Rightarrow> string \<Rightarrow> world \<Rightarrow> (exn + json) \<times> world" where
  "delete_file env self file_id w =
     (let (x, w') = client_request env (client self) DELETE (''/v1/uploads/'' @ file_id) [] None w
      in (try_except except_plain (decoded_response env x), w'))"

text \<open>
  \<open>return data.get("signed_url")\<close>: a dict returns the value, or \<open>None\<close> when the key is
  absent; every other JSON value (list, string, number, boolean, \<open>None\<close>) has no
  attribute \<open>get\<close>.
\<close>

definition dict_get :: "json \<Rightarrow> string \<Rightarrow> exn + json" where
  "dict_get data k =
     (case data of
        JObj kvs \<Rightarrow> Inr (case map_of kvs k of None \<Rightarrow> JNull | Some v \<Rightarrow> v)
      | _ \<Rightarrow> Inl (AttributeError ''get''))"

definition get_field :: "'r env \<Rightarrow> string \<Rightarrow> (exn + response) \<Rightarrow> exn + json" where
  "get_field env k x =
     (case decoded_response env x of
        Inl e \<Rightarrow> Inl e
      | Inr data \<Rightarrow> dict_get data k)"

definition get_signed_url ::
  "'r env \<Rightarrow> FileClient \<Rightarrow> string \<Rightarrow> world \<Rightarrow> (exn + json) \<times> world" where
  "get_signed_url env self file_id w =
     (let (x, w') = client_request env (client self) GET
                      (''/v1/uploads/'' @ file_id @ ''/signed-url'') [] None w
      in (try_except except_plain (get_field env ''signed_url'' x), w'))"

definition get_file_as_base64 ::
  "'r env \<Rightarrow> FileClient \<Rightarrow> string \<Rightarrow> world \<Rightarrow> (exn + json) \<times> world" where
  "get_file_as_base64 env self file_id w =
     (let (x, w') = client_request env (client self) GET
                      (''/v1/uploads/'' @ file_id @ ''/base64'') [] None w
      in (try_except except_plain (get_field env ''base64'' x), w'))"

subsection \<open>Download\<close>

text \<open>
  \<open>io.BytesIO(initial)\<close> starts at position 0. \<open>read()\<close> returns the bytes from the
  position to the end and moves the position there; \<open>seek(n)\<close> sets the position.
\<close>

record BytesIO =
  buffer :: "byte list"
  pos :: nat

definition BytesIO_init :: "byte list \<Rightarrow> BytesIO" where
  "BytesIO_init bs = \<lparr>buffer = bs, pos = 0\<rparr>"

definition BytesIO_read :: "BytesIO \<Rightarrow> byte list \<times> BytesIO" where
  "BytesIO_read b = (drop (pos b) (buffer b), b\<lparr>pos := max (pos b) (length (buffer b))\<rparr>)"

definition BytesIO_seek :: "BytesIO \<Rightarrow> nat \<Rightarrow> BytesIO" where
  "BytesIO_seek b n = b\<lparr>pos := n\<rparr>"

definition BytesIO_tell :: "BytesIO \<Rightarrow> nat" where
  "BytesIO_tell b = pos b"

definition download_file_as_object ::
  "'r env \<Rightarrow> FileClient \<Rightarrow> string \<Rightarrow> world \<Rightarrow> (exn + BytesIO) \<times> world" where
  "download_file_as_object env self file_id w =
     (let (x, w') = client_request env (client self) GET
                      (''/v1/uploads/'' @ file_id @ ''/object'') [] None w
      in (try_except except_plain
            (case x of
               Inl e \<Rightarrow> Inl e
             | Inr response \<Rightarrow>
                 (case raise_for_status response of
                    Inl e \<Rightarrow> Inl e
                  | Inr r \<Rightarrow> Inr (BytesIO_init (content r)))), w'))"

subsection \<open>Upload\<close>

text \<open>\<open>os.path.basename\<close> (POSIX): what follows the last slash.\<close>

definition basename :: "string \<Rightarrow> string" where
  "basename p = rev (takeWhile (\<lambda>c. c \<noteq> CHR ''/'') (rev p))"

text \<open>\<open>mime_type or 'application/octet-stream'\<close>: the default replaces \<open>None\<close> and the empty string.\<close>

definition or_default :: "string option \<Rightarrow> string \<Rightarrow> string" where
  "or_default x d = (case x of None \<Rightarrow> d | Some s \<Rightarrow> if s \<noteq> [] then s else d)"

text \<open>
  \<open>open(file_path, 'rb')\<close> raises when there is no such file, and otherwise creates a new
  open file object; \<open>close\<close> marks it closed; reading a closed file object raises
  \<open>ValueError\<close>.
\<close>

definition open_rb :: "string \<Rightarrow> world \<Rightarrow> (exn + nat) \<times> world" where
  "open_rb p w =
     (case files w p of
        None \<Rightarrow> (Inl (FileNotFoundError p), w)
      | Some bs \<Rightarrow>
          (Inr (length (handles w)),
           w\<lparr>handles := handles w @ [\<lparr>fo_path = p, fo_data = bs, fo_closed = False\<rparr>]\<rparr>))"

definition close_file :: "nat \<Rightarrow> world \<Rightarrow> world" where
  "close_file h w =
     (if h < length (handles w)
      then w\<lparr>handles := (handles w)[h := (handles w ! h)\<lparr>fo_closed := True\<rparr>]\<rparr>
      else w)"

definition read_file :: "nat \<Rightarrow> world \<Rightarrow> exn + byte list" where
  "read_file h w =
     (if h < length (handles w) \<and> \<not> fo_closed (handles w ! h)
      then Inr (fo_data (handles w ! h))
      else Inl (ValueError ''I/O operation on closed file''))"

text \<open>
  \<open>self.client.post("/v1/uploads", data=form_data, files=files)\<close> with
  \<open>form_data = {"purpose": purpose, "user_id": user_id}\<close> and
  \<open>files = {'file': (filename, file_object, mime_type)}\<close>, followed by the three shared
  lines. The part's field name is always \<open>file\<close> and is not stored.
\<close>

definition post_upload ::
  "'r env \<Rightarrow> FileClient \<Rightarrow> string \<Rightarrow> byte list \<Rightarrow> string \<Rightarrow> string \<Rightarrow> string \<Rightarrow> world \<Rightarrow>
   (exn + 'r) \<times> world" where
  "post_upload env self filename bs mime_type user_id purpose w =
     (let (x, w') = client_request env (client self) POST ''/v1/uploads''
                      [(''purpose'', purpose), (''user_id'', user_id)]
                      (Some (filename, bs, mime_type)) w
      in (validated_response env x, w'))"

text \<open>
  \<open>upload_file\<close>: the \<open>with open(...) as file_object\<close> block is inside the \<open>try\<close>. Leaving
  the block closes the file object, whether its body returned or raised, before an
  \<open>except\<close> clause runs. The transport reads the file object while it sends.
  \<open>metadata\<close> is a parameter of the method.
\<close>

definition upload_file ::
  "'r env \<Rightarrow> FileClient \<Rightarrow> string \<Rightarrow> string \<Rightarrow> string \<Rightarrow> (string \<times> json) list option \<Rightarrow>
   world \<Rightarrow> (exn + 'r) \<times> world" where
  "upload_file env self file_path user_id purpose metadata w =
     (let filename = basename file_path;
          mime_type = or_default (guess_type env file_path) ''application/octet-stream''
      in case open_rb file_path w of
           (Inl e, w0) \<Rightarrow> (try_except except_validating (Inl e), w0)
         | (Inr file_object, w0) \<Rightarrow>
             (let (res, w1) =
                    (case read_file file_object w0 of
                       Inl e \<Rightarrow> (Inl e, w0)
                     | Inr bs \<Rightarrow> post_upload env self filename bs mime_type user_id purpose w0)
              in (try_except except_validating res, close_file file_object w1)))"

text \<open>
  \<open>upload_file_object\<close>: the caller's stream is given by the bytes the transport reads
  from it; the method neither opens nor closes it.
\<close>

definition upload_file_object ::
  "'r env \<Rightarrow> FileClient \<Rightarrow> byte list \<Rightarrow> string \<Rightarrow> string \<Rightarrow> string \<Rightarrow>
   (string \<times> json) list option \<Rightarrow> world \<Rightarrow> (exn + 'r) \<times> world" where
  "upload_file_object env self file_object file_name user_id purpose metadata w =
     (let mime_type = or_default (guess_type env file_name) ''application/octet-stream'';
          (res, w') = post_upload env self file_name file_object mime_type user_id purpose w
      in (try_except except_validating res, w'))"

subsection \<open>Any call of a public method\<close>

datatype call =
    Upload_file string string string "(string \<times> json) list option"
  | Upload_file_object "byte list" string string string "(string \<times> json) list option"
  | Retrieve_file string
  | Delete_file string
  | Download_file_as_object string
  | Get_signed_url string
  | Get_file_as_base64 string

text \<open>The world after one call, and the requests that the call added to it.\<close>

fun world_after :: "'r env \<Rightarrow> FileClient \<Rightarrow> call \<Rightarrow> world \<Rightarrow> world" where
  "world_after env self (Upload_file p u pu m) w = snd (upload_file env self p u pu m w)"
| "world_after env self (Upload_file_object bs n u pu m) w =
     snd (upload_file_object env self bs n u pu m w)"
| "world_after env self (Retrieve_file i) w = snd (retrieve_file env self i w)"
| "world_after env self (Delete_file i) w = snd (delete_file env self i w)"
| "world_after env self (Download_file_as_object i) w = snd (download_file_as_object env self i w)"
| "world_after env self (Get_signed_url i) w = snd (get_signed_url env self i w)"
| "world_after env self (Get_file_as_base64 i) w = snd (get_file_as_base64 env self i w)"

definition issued :: "world \<Rightarrow> world \<Rightarrow> request list" where
  "issued w w' = drop (length (sent w)) (sent w')"

definition content_types :: "request list \<Rightarrow> string list" where
  "content_types rs = List.map_filter (\<lambda>r. map_option (\<lambda>(n, bs, t). t) (file_part r)) rs"

subsection \<open>Example collaborators\<close>

text \<open>
  Modelled from the spec: the FileRecord shape of section 3 (identifier, purpose, owning
  user, file name, content type, size, creation time, optional metadata). The schema
  class \<open>FileResponse\<close> lives in the package \<open>entities_common\<close>, which this module only
  imports. The key names are an assumption. It is used to run the methods on concrete
  inputs; no theorem about every \<open>env\<close> depends on it.
\<close>

record FileRecord =
  fr_id :: string
  fr_purpose :: string
  fr_user_id :: string
  fr_filename :: string
  fr_mime_type :: string
  fr_bytes :: int
  fr_created_at :: int
  fr_metadata :: json

definition and_then :: "exn + 'a \<Rightarrow> ('a \<Rightarrow> exn + 'b) \<Rightarrow> exn + 'b" where
  "and_then x f = (case x of Inl e \<Rightarrow> Inl e | Inr v \<Rightarrow> f v)"

definition str_field :: "(string \<times> json) list \<Rightarrow> string \<Rightarrow> exn + string" where
  "str_field kvs k =
     (case map_of kvs k of
        None \<Rightarrow> Inl (ValidationError (k @ '': Field required''))
      | Some (JStr s) \<Rightarrow> Inr s
      | Some _ \<Rightarrow> Inl (ValidationError (k @ '': Input should be a valid string'')))"

definition int_field :: "(string \<times> json) list \<Rightarrow> string \<Rightarrow> exn + int" where
  "int_field kvs k =
     (case map_of kvs k of
        None \<Rightarrow> Inl (ValidationError (k @ '': Field required''))
      | Some (JInt n) \<Rightarrow> Inr n
      | Some _ \<Rightarrow> Inl (ValidationError (k @ '': Input should be a valid integer'')))"

definition FileRecord_validate :: "json \<Rightarrow> exn + FileRecord" where
  "FileRecord_validate j =
     (case j of
        JObj kvs \<Rightarrow>
          and_then (str_field kvs ''id'') (\<lambda>i.
          and_then (str_field kvs ''purpose'') (\<lambda>p.
          and_then (str_field kvs ''user_id'') (\<lambda>u.
          and_then (str_field kvs ''filename'') (\<lambda>f.
          and_then (str_field kvs ''mime_type'') (\<lambda>t.
          and_then (int_field kvs ''bytes'') (\<lambda>n.
          and_then (int_field kvs ''created_at'') (\<lambda>c.
            Inr \<lparr>fr_id = i, fr_purpose = p, fr_user_id = u, fr_filename = f,
                 fr_mime_type = t, fr_bytes = n, fr_created_at = c,
                 fr_metadata = (case map_of kvs ''metadata'' of None \<Rightarrow> JNull | Some m \<Rightarrow> m)\<rparr>)))))))
      | _ \<Rightarrow> Inl (ValidationError ''Input should be a valid dictionary''))"

text \<open>A small table in the place of \<open>mimetypes.guess_type\<close>.\<close>

definition example_guess_type :: "string \<Rightarrow> string option" where
  "example_guess_type p =
     (let ext = rev (takeWhile (\<lambda>c. c \<noteq> CHR ''.'') (rev (basename p)))
      in if ext = basename p then None
         else if ext = ''png'' then Some ''image/png''
         else if ext = ''txt'' then Some ''text/plain''
         else None)"

text \<open>A server that gives one answer, whose body decodes to one value.\<close>

definition example_env :: "(exn + response) \<Rightarrow> (exn + json) \<Rightarrow> FileRecord env" where
  "example_env answer decoded =
     \<lparr>server = (\<lambda>_. answer), json_loads = (\<lambda>_. decoded),
      guess_type = example_guess_type, model_validate = FileRecord_validate\<rparr>"

definition example_world :: world where
  "example_world =
     \<lparr>files = [''/tmp/logo.png'' \<mapsto> [137, 80, 78, 71]], handles = [], sent = []\<rparr>"

definition example_record :: json where
  "example_record =
     JObj [(''id'', JStr ''file_1''), (''purpose'', JStr ''assistants''),
           (''user_id'', JStr ''user_1''), (''filename'', JStr ''logo.png''),
           (''mime_type'', JStr ''image/png''), (''bytes'', JInt 4),
           (''created_at'', JInt 1700000000)]"

section \<open>Properties\<close>

subsection \<open>Auxiliary facts\<close>

lemma try_except_plain: "try_except except_plain x = x"
proof (cases x)
  case (Inl e)
  then show ?thesis by (cases e) (simp_all add: try_except_def)
next
  case (Inr v)
  then show ?thesis by (simp add: try_except_def)
qed

lemma fst_client_request:
  "fst (client_request env hc m u d f w) = server env (build_request hc m u d f)"
  by (simp add: client_request_def Let_def)

lemma snd_client_request:
  "snd (client_request env hc m u d f w) = w\<lparr>sent := sent w @ [build_request hc m u d f]\<rparr>"
  by (simp add: client_request_def Let_def)

lemma snd_post_upload:
  "snd (post_upload env self n bs t u pu w) =
     w\<lparr>sent := sent w @ [build_request (client self) POST ''/v1/uploads''
                           [(''purpose'', pu), (''user_id'', u)] (Some (n, bs, t))]\<rparr>"
  by (simp add: post_upload_def client_request_def Let_def)

lemma snd_upload_file_object:
  "snd (upload_file_object env self bs n u pu m w) =
     w\<lparr>sent := sent w @ [build_request (client self) POST ''/v1/uploads''
                           [(''purpose'', pu), (''user_id'', u)]
                           (Some (n, bs, or_default (guess_type env n) ''application/octet-stream''))]\<rparr>"
  by (simp add: upload_file_object_def Let_def split_def snd_post_upload)

lemma snd_upload_file_absent:
  "files w p = None \<Longrightarrow> snd (upload_file env self p u pu m w) = w"
  by (simp add: upload_file_def open_rb_def Let_def)

lemma snd_upload_file_present:
  assumes "files w p = Some bs"
  shows "snd (upload_file env self p u pu m w) =
     w\<lparr>handles := handles w @ [\<lparr>fo_path = p, fo_data = bs, fo_closed = True\<rparr>],
       sent := sent w @ [build_request (client self) POST ''/v1/uploads''
                           [(''purpose'', pu), (''user_id'', u)]
                           (Some (basename p, bs,
                                  or_default (guess_type env p) ''application/octet-stream''))]\<rparr>"
  using assms
  by (simp add: upload_file_def open_rb_def read_file_def Let_def split_def snd_post_upload
      close_file_def)

lemma issued_one [simp]: "issued w (w\<lparr>sent := sent w @ [q]\<rparr>) = [q]"
  by (simp add: issued_def)

lemma issued_one_handles [simp]: "issued w (w\<lparr>handles := hs, sent := sent w @ [q]\<rparr>) = [q]"
  by (simp add: issued_def)

lemma issued_none [simp]: "issued w w = []"
  by (simp add: issued_def)

lemma snd_retrieve_file:
  "snd (retrieve_file env self i w) =
     w\<lparr>sent := sent w @ [build_request (client self) GET (''/v1/uploads/'' @ i) [] None]\<rparr>"
  by (simp add: retrieve_file_def split_def snd_client_request)

lemma snd_delete_file:
  "snd (delete_file env self i w) =
     w\<lparr>sent := sent w @ [build_request (client self) DELETE (''/v1/uploads/'' @ i) [] None]\<rparr>"
  by (simp add: delete_file_def split_def snd_client_request)

lemma snd_download_file_as_object:
  "snd (download_file_as_object env self i w) =
     w\<lparr>sent := sent w @ [build_request (client self) GET
                           (''/v1/uploads/'' @ i @ ''/object'') [] None]\<rparr>"
  by (simp add: download_file_as_object_def split_def snd_client_request)

lemma snd_get_signed_url:
  "snd (get_signed_url env self i w) =
     w\<lparr>sent := sent w @ [build_request (client self) GET
                           (''/v1/uploads/'' @ i @ ''/signed-url'') [] None]\<rparr>"
  by (simp add: get_signed_url_def split_def snd_client_request)

lemma snd_get_file_as_base64:
  "snd (get_file_as_base64 env self i w) =
     w\<lparr>sent := sent w @ [build_request (client self) GET
                           (''/v1/uploads/'' @ i @ ''/base64'') [] None]\<rparr>"
  by (simp add: get_file_as_base64_def split_def snd_client_request)

lemmas snd_method =
  snd_upload_file_object snd_retrieve_file snd_delete_file snd_download_file_as_object
  snd_get_signed_url snd_get_file_as_base64

text \<open>Every request that a call issues has the headers of the client's \<open>httpx.Client\<close>.\<close>

lemma issued_headers:
  "list_all (\<lambda>q. headers q = hc_headers (client self)) (issued w (world_after env self c w))"
proof (cases c)
  case (Upload_file p u pu m)
  then show ?thesis
    by (cases "files w p")
      (simp_all add: snd_upload_file_absent snd_upload_file_present build_request_def)
qed (simp_all add: snd_method build_request_def)

text \<open>The requests that a call issues depend on the client through its \<open>httpx.Client\<close> only.\<close>

lemma issued_client:
  assumes "client self = client self'"
  shows "issued w (world_after env self c w) = issued w (world_after env self' c w)"
proof (cases c)
  case (Upload_file p u pu m)
  then show ?thesis using assms
    by (cases "files w p") (simp_all add: snd_upload_file_absent snd_upload_file_present)
qed (simp_all add: snd_method assms)

subsection \<open>Retrieve: the two failures\<close>

text \<open>
  Claim C1. When the server answers \<open>retrieve_file\<close> with a 2xx status and a JSON body
  that \<open>FileResponse.model_validate\<close> rejects (pydantic's \<open>ValidationError\<close>, with
  text \<open>d\<close>), the first \<open>except\<close> clause catches it and the method raises
  \<open>ValueError("Validation error: " + d)\<close>: the validation failure of the module, carrying
  the text of the mismatch. It is not the exception of the other two clauses, which
  raise again what they caught.
\<close>

theorem retrieve_file_validation_error:
  assumes "server env (build_request (client self) GET (''/v1/uploads/'' @ file_id) [] None) = Inr r"
    and "is_success r"
    and "response_json env r = Inr j"
    and "model_validate env j = Inl (ValidationError d)"
  shows "fst (retrieve_file env self file_id w) = Inl (ValueError (''Validation error: '' @ d))"
  using assms
  by (simp add: retrieve_file_def split_def fst_client_request validated_response_def
      raise_for_status_def try_except_def)

theorem retrieve_file_validation_error_witness:
  "is_success \<lparr>status_code = 200, content = []\<rparr> \<and>
   FileRecord_validate (JObj [(''purpose'', JStr ''assistants'')])
     = Inl (ValidationError ''id: Field required'') \<and>
   fst (retrieve_file
          (example_env (Inr \<lparr>status_code = 200, content = []\<rparr>)
             (Inr (JObj [(''purpose'', JStr ''assistants'')])))
          (FileClient_init ''http://localhost:9000'' (Some ''key'')) ''file_1'' example_world)
     = Inl (ValueError ''Validation error: id: Field required'')"
  using retrieve_file_validation_error
    [of "example_env (Inr \<lparr>status_code = 200, content = []\<rparr>)
           (Inr (JObj [(''purpose'', JStr ''assistants'')]))"
        "FileClient_init ''http://localhost:9000'' (Some ''key'')" "''file_1''"
        "\<lparr>status_code = 200, content = []\<rparr>" "JObj [(''purpose'', JStr ''assistants'')]"
        "''id: Field required''" example_world]
  by (simp add: example_env_def is_success_def response_json_def FileRecord_validate_def
      and_then_def str_field_def)

text \<open>
  Claim C3. When the server answers \<open>retrieve_file\<close> with a status outside 200..299,
  \<open>raise_for_status\<close> raises \<open>HTTPStatusError\<close> with that response, the second clause
  raises it again, and neither the JSON decoder nor the validator has a say: the outcome
  is the same whatever they are.
\<close>

theorem retrieve_file_http_status_error:
  assumes "server env (build_request (client self) GET (''/v1/uploads/'' @ file_id) [] None) = Inr r"
    and "\<not> is_success r"
  shows "fst (retrieve_file (env\<lparr>json_loads := l, model_validate := v\<rparr>) self file_id w)
           = Inl (HTTPStatusError r)"
  using assms
  by (simp add: retrieve_file_def split_def fst_client_request validated_response_def
      raise_for_status_def try_except_def)

theorem retrieve_file_http_status_error_witness:
  "\<not> is_success \<lparr>status_code = 404, content = []\<rparr> \<and>
   fst (retrieve_file
          (example_env (Inr \<lparr>status_code = 404, content = []\<rparr>) (Inr JNull))
          (FileClient_init ''http://localhost:9000'' (Some ''key'')) ''missing'' example_world)
     = Inl (HTTPStatusError \<lparr>status_code = 404, content = []\<rparr>)"
  using retrieve_file_http_status_error
    [where env = "example_env (Inr \<lparr>status_code = 404, content = []\<rparr>) (Inr JNull)"
       and self = "FileClient_init ''http://localhost:9000'' (Some ''key'')"
       and file_id = "''missing''" and r = "\<lparr>status_code = 404, content = []\<rparr>"
       and l = "\<lambda>_. Inr JNull" and v = FileRecord_validate and w = example_world]
  by (simp add: example_env_def is_success_def)

subsection \<open>Delete and download\<close>

text \<open>
  Claim C4. When the server answers \<open>delete_file\<close> with a 2xx status, the outcome of the
  method is the outcome of \<open>response.json()\<close>, unchanged: the decoded body, whatever JSON
  value it is, or the decoder's exception.
\<close>

theorem delete_file_verbatim:
  assumes "server env (build_request (client self) DELETE (''/v1/uploads/'' @ file_id) [] None) = Inr r"
    and "is_success r"
  shows "fst (delete_file env self file_id w) = response_json env r"
  using assms
  by (simp add: delete_file_def split_def fst_client_request decoded_response_def
      raise_for_status_def try_except_plain)

theorem delete_file_verbatim_witness:
  "is_success \<lparr>status_code = 200, content = [116, 114, 117, 101]\<rparr> \<and>
   fst (delete_file
          (example_env (Inr \<lparr>status_code = 200, content = [116, 114, 117, 101]\<rparr>)
             (Inr (JBool True)))
          (FileClient_init ''http://localhost:9000'' None) ''file_1'' example_world)
     = Inr (JBool True)"
  using delete_file_verbatim
    [of "example_env (Inr \<lparr>status_code = 200, content = [116, 114, 117, 101]\<rparr>)
           (Inr (JBool True))"
        "FileClient_init ''http://localhost:9000'' None" "''file_1''"
        "\<lparr>status_code = 200, content = [116, 114, 117, 101]\<rparr>" example_world]
  by (simp add: example_env_def is_success_def response_json_def)

text \<open>
  Claim C5. When the server answers \<open>download_file_as_object\<close> with a 2xx status, the
  method returns a \<open>BytesIO\<close> over \<open>response.content\<close>: its position is 0, a full read
  gives exactly the bytes of the response, and after \<open>seek(n)\<close> a read gives the bytes
  from offset \<open>n\<close> on.
\<close>

theorem download_file_as_object_buffer:
  assumes "server env (build_request (client self) GET
                         (''/v1/uploads/'' @ file_id @ ''/object'') [] None) = Inr r"
    and "is_success r"
  shows "fst (download_file_as_object env self file_id w) = Inr (BytesIO_init (content r)) \<and>
         BytesIO_tell (BytesIO_init (content r)) = 0 \<and>
         fst (BytesIO_read (BytesIO_init (content r))) = content r \<and>
         fst (BytesIO_read (BytesIO_seek (BytesIO_init (content r)) n)) = drop n (content r)"
  using assms
  by (simp add: download_file_as_object_def split_def fst_client_request
      raise_for_status_def try_except_plain BytesIO_init_def BytesIO_tell_def
      BytesIO_read_def BytesIO_seek_def)

theorem download_file_as_object_buffer_witness:
  "is_success \<lparr>status_code = 200, content = [137, 80, 78, 71]\<rparr> \<and>
   fst (download_file_as_object
          (example_env (Inr \<lparr>status_code = 200, content = [137, 80, 78, 71]\<rparr>)
             (Inl (JSONDecodeError ''Expecting value'')))
          (FileClient_init ''http://localhost:9000'' None) ''file_1'' example_world)
     = Inr \<lparr>buffer = [137, 80, 78, 71], pos = 0\<rparr> \<and>
   fst (BytesIO_read \<lparr>buffer = [137, 80, 78, 71], pos = 0\<rparr>) = [137, 80, 78, 71]"
  using download_file_as_object_buffer
    [of "example_env (Inr \<lparr>status_code = 200, content = [137, 80, 78, 71]\<rparr>)
           (Inl (JSONDecodeError ''Expecting value''))"
        "FileClient_init ''http://localhost:9000'' None" "''file_1''"
        "\<lparr>status_code = 200, content = [137, 80, 78, 71]\<rparr>" example_world 0]
  by (simp add: example_env_def is_success_def BytesIO_init_def)

subsection \<open>Signed URL and base64\<close>

text \<open>
  Claim C2, as stated, fails: a 2xx answer whose JSON body is the empty array has no
  field \<open>signed_url\<close>, and \<open>data.get\<close> raises \<open>AttributeError\<close> on a list, which the
  method raises again.
\<close>

theorem get_signed_url_array_body_raises:
  "is_success \<lparr>status_code = 200, content = [91, 93]\<rparr> \<and>
   fst (get_signed_url
          (example_env (Inr \<lparr>status_code = 200, content = [91, 93]\<rparr>) (Inr (JArr [])))
          (FileClient_init ''http://localhost:9000'' (Some ''key'')) ''file_1'' example_world)
     = Inl (AttributeError ''get'')"
  by (simp add: is_success_def get_signed_url_def client_request_def Let_def example_env_def
      get_field_def decoded_response_def raise_for_status_def response_json_def
      dict_get_def try_except_def)

text \<open>
  Claim C2, amended. When the server answers \<open>get_signed_url\<close> (or
  \<open>get_file_as_base64\<close>) with a 2xx status and a body that decodes to a JSON object, the
  method returns without raising: the value of the field \<open>signed_url\<close> (or \<open>base64\<close>)
  unchanged when the object has it, and \<open>None\<close> when it has not.
\<close>

theorem get_field_of_object:
  assumes "is_success r"
    and "response_json env r = Inr (JObj kvs)"
  shows "(server env (build_request (client self) GET
                        (''/v1/uploads/'' @ file_id @ ''/signed-url'') [] None) = Inr r \<longrightarrow>
            fst (get_signed_url env self file_id w)
              = Inr (case map_of kvs ''signed_url'' of None \<Rightarrow> JNull | Some v \<Rightarrow> v)) \<and>
         (server env (build_request (client self) GET
                        (''/v1/uploads/'' @ file_id @ ''/base64'') [] None) = Inr r \<longrightarrow>
            fst (get_file_as_base64 env self file_id w)
              = Inr (case map_of kvs ''base64'' of None \<Rightarrow> JNull | Some v \<Rightarrow> v))"
  using assms
  by (simp add: get_signed_url_def get_file_as_base64_def split_def fst_client_request
      get_field_def decoded_response_def raise_for_status_def dict_get_def
      try_except_plain)

theorem get_field_of_object_witness:
  "is_success \<lparr>status_code = 200, content = []\<rparr> \<and>
   fst (get_signed_url
          (example_env (Inr \<lparr>status_code = 200, content = []\<rparr>)
             (Inr (JObj [(''signed_url'', JStr ''https://cdn/f1?sig=abc'')])))
          (FileClient_init ''http://localhost:9000'' (Some ''key'')) ''file_1'' example_world)
     = Inr (JStr ''https://cdn/f1?sig=abc'') \<and>
   fst (get_file_as_base64
          (example_env (Inr \<lparr>status_code = 200, content = []\<rparr>)
             (Inr (JObj [(''signed_url'', JStr ''https://cdn/f1?sig=abc'')])))
          (FileClient_init ''http://localhost:9000'' (Some ''key'')) ''file_1'' example_world)
     = Inr JNull"
  using get_field_of_object
    [where r = "\<lparr>status_code = 200, content = []\<rparr>"
       and env = "example_env (Inr \<lparr>status_code = 200, content = []\<rparr>)
                    (Inr (JObj [(''signed_url'', JStr ''https://cdn/f1?sig=abc'')]))"
       and kvs = "[(''signed_url'', JStr ''https://cdn/f1?sig=abc'')]"
       and self = "FileClient_init ''http://localhost:9000'' (Some ''key'')"
       and file_id = "''file_1''" and w = example_world]
  by (simp add: example_env_def is_success_def response_json_def)

subsection \<open>Upload\<close>

text \<open>
  Claim C6. After \<open>upload_file\<close> returns or raises, the file objects of the world are
  those of before, followed, when the path could be opened, by the one the call opened,
  now closed. Nothing is assumed about the server, the decoder or the validator, so this
  covers the successful upload, the HTTP error, the validation error and every other
  exception.
\<close>

theorem upload_file_closes_file_object:
  "handles (snd (upload_file env self file_path user_id purpose metadata w)) =
     (case files w file_path of
        None \<Rightarrow> handles w
      | Some bs \<Rightarrow> handles w @ [\<lparr>fo_path = file_path, fo_data = bs, fo_closed = True\<rparr>])"
proof (cases "files w file_path")
  case None
  then show ?thesis by (simp add: snd_upload_file_absent)
next
  case (Some bs)
  then show ?thesis by (simp add: snd_upload_file_present)
qed

theorem upload_file_closes_file_object_witness:
  "fst (upload_file (example_env (Inr \<lparr>status_code = 200, content = []\<rparr>) (Inr example_record))
          (FileClient_init ''http://localhost:9000'' (Some ''key''))
          ''/tmp/logo.png'' ''user_1'' ''assistants'' None example_world)
     = Inr \<lparr>fr_id = ''file_1'', fr_purpose = ''assistants'', fr_user_id = ''user_1'',
            fr_filename = ''logo.png'', fr_mime_type = ''image/png'', fr_bytes = 4,
            fr_created_at = 1700000000, fr_metadata = JNull\<rparr> \<and>
   fst (upload_file (example_env (Inr \<lparr>status_code = 500, content = []\<rparr>) (Inr JNull))
          (FileClient_init ''http://localhost:9000'' (Some ''key''))
          ''/tmp/logo.png'' ''user_1'' ''assistants'' None example_world)
     = Inl (HTTPStatusError \<lparr>status_code = 500, content = []\<rparr>) \<and>
   fst (upload_file (example_env (Inl (RequestError ''connection refused'')) (Inr JNull))
          (FileClient_init ''http://localhost:9000'' (Some ''key''))
          ''/tmp/logo.png'' ''user_1'' ''assistants'' None example_world)
     = Inl (RequestError ''connection refused'') \<and>
   handles (snd (upload_file (example_env (Inr \<lparr>status_code = 200, content = []\<rparr>) (Inr example_record))
                   (FileClient_init ''http://localhost:9000'' (Some ''key''))
                   ''/tmp/logo.png'' ''user_1'' ''assistants'' None example_world))
     = [\<lparr>fo_path = ''/tmp/logo.png'', fo_data = [137, 80, 78, 71], fo_closed = True\<rparr>] \<and>
   handles (snd (upload_file (example_env (Inr \<lparr>status_code = 500, content = []\<rparr>) (Inr JNull))
                   (FileClient_init ''http://localhost:9000'' (Some ''key''))
                   ''/tmp/logo.png'' ''user_1'' ''assistants'' None example_world))
     = [\<lparr>fo_path = ''/tmp/logo.png'', fo_data = [137, 80, 78, 71], fo_closed = True\<rparr>] \<and>
   handles (snd (upload_file (example_env (Inl (RequestError ''connection refused'')) (Inr JNull))
                   (FileClient_init ''http://localhost:9000'' (Some ''key''))
                   ''/tmp/logo.png'' ''user_1'' ''assistants'' None example_world))
     = [\<lparr>fo_path = ''/tmp/logo.png'', fo_data = [137, 80, 78, 71], fo_closed = True\<rparr>]"
  using
    upload_file_closes_file_object
      [of "example_env (Inr \<lparr>status_code = 200, content = []\<rparr>) (Inr example_record)"
          "FileClient_init ''http://localhost:9000'' (Some ''key'')"
          "''/tmp/logo.png''" "''user_1''" "''assistants''" None example_world]
    upload_file_closes_file_object
      [of "example_env (Inr \<lparr>status_code = 500, content = []\<rparr>) (Inr JNull)"
          "FileClient_init ''http://localhost:9000'' (Some ''key'')"
          "''/tmp/logo.png''" "''user_1''" "''assistants''" None example_world]
    upload_file_closes_file_object
      [of "example_env (Inl (RequestError ''connection refused'')) (Inr JNull)"
          "FileClient_init ''http://localhost:9000'' (Some ''key'')"
          "''/tmp/logo.png''" "''user_1''" "''assistants''" None example_world]
  by (simp add: example_world_def example_env_def example_record_def upload_file_def
      open_rb_def read_file_def post_upload_def client_request_def Let_def
      validated_response_def raise_for_status_def is_success_def response_json_def
      FileRecord_validate_def and_then_def str_field_def int_field_def try_except_def)

text \<open>
  Claim C8. The one request of an upload carries, as the content type of its file part,
  what \<open>mimetypes.guess_type\<close> infers from the name the caller passed (the path for
  \<open>upload_file\<close>, the file name for \<open>upload_file_object\<close>), and
  \<open>application/octet-stream\<close> when it infers nothing. \<open>upload_file\<close> sends no request
  when the path cannot be opened.
\<close>

theorem upload_content_type:
  "content_types (issued w (snd (upload_file_object env self file_object file_name user_id
                                   purpose metadata w)))
     = [case guess_type env file_name of
          None \<Rightarrow> ''application/octet-stream''
        | Some t \<Rightarrow> if t \<noteq> [] then t else ''application/octet-stream''] \<and>
   content_types (issued w (snd (upload_file env self file_path user_id purpose metadata w)))
     = (case files w file_path of
          None \<Rightarrow> []
        | Some bs \<Rightarrow>
            [case guess_type env file_path of
               None \<Rightarrow> ''application/octet-stream''
             | Some t \<Rightarrow> if t \<noteq> [] then t else ''application/octet-stream''])"
proof (cases "files w file_path")
  case None
  then show ?thesis
    by (simp add: snd_upload_file_absent snd_upload_file_object content_types_def
        List.map_filter_simps build_request_def or_default_def)
next
  case (Some bs)
  then show ?thesis
    by (simp add: snd_upload_file_present snd_upload_file_object content_types_def
        List.map_filter_simps build_request_def or_default_def)
qed

theorem upload_content_type_witness:
  "content_types (issued example_world
      (snd (upload_file_object (example_env (Inr \<lparr>status_code = 200, content = []\<rparr>) (Inr example_record))
              (FileClient_init ''http://localhost:9000'' (Some ''key''))
              [1, 2, 3] ''blob.xyz'' ''user_1'' ''assistants'' None example_world)))
     = [''application/octet-stream''] \<and>
   content_types (issued example_world
      (snd (upload_file (example_env (Inr \<lparr>status_code = 200, content = []\<rparr>) (Inr example_record))
              (FileClient_init ''http://localhost:9000'' (Some ''key''))
              ''/tmp/logo.png'' ''user_1'' ''assistants'' None example_world)))
     = [''image/png'']"
  using upload_content_type
    [of example_world "example_env (Inr \<lparr>status_code = 200, content = []\<rparr>) (Inr example_record)"
        "FileClient_init ''http://localhost:9000'' (Some ''key'')"
        "[1, 2, 3]" "''blob.xyz''" "''user_1''" "''assistants''" None "''/tmp/logo.png''"]
  by (simp add: example_world_def example_env_def example_guess_type_def basename_def)

text \<open>
  Claim C9. Two calls of \<open>upload_file\<close>, or of \<open>upload_file_object\<close>, that differ in the
  \<open>metadata\<close> argument only have the same outcome and leave the same world, so the same
  request was sent.
\<close>

theorem upload_ignores_metadata:
  "upload_file env self file_path user_id purpose metadata w
     = upload_file env self file_path user_id purpose metadata' w \<and>
   upload_file_object env self file_object file_name user_id purpose metadata w
     = upload_file_object env self file_object file_name user_id purpose metadata' w"
  by (simp add: upload_file_def upload_file_object_def)

theorem upload_ignores_metadata_witness:
  "upload_file (example_env (Inr \<lparr>status_code = 200, content = []\<rparr>) (Inr example_record))
      (FileClient_init ''http://localhost:9000'' (Some ''key''))
      ''/tmp/logo.png'' ''user_1'' ''assistants'' None example_world
     = upload_file (example_env (Inr \<lparr>status_code = 200, content = []\<rparr>) (Inr example_record))
         (FileClient_init ''http://localhost:9000'' (Some ''key''))
         ''/tmp/logo.png'' ''user_1'' ''assistants'' (Some [(''team'', JStr ''design'')])
         example_world"
  using upload_ignores_metadata
    [of "example_env (Inr \<lparr>status_code = 200, content = []\<rparr>) (Inr example_record)"
        "FileClient_init ''http://localhost:9000'' (Some ''key'')"
        "''/tmp/logo.png''" "''user_1''" "''assistants''" None example_world
        "Some [(''team'', JStr ''design'')]"]
  by simp

subsection \<open>The Authorization header\<close>

text \<open>
  Claim C7, as stated, fails for the credential \<open>""\<close>: a client constructed with it
  sends its request with no header at all, so without an Authorization header.
\<close>

theorem empty_credential_request_has_no_authorization:
  "map headers
     (issued example_world
        (world_after (example_env (Inr \<lparr>status_code = 200, content = []\<rparr>) (Inr example_record))
           (FileClient_init ''http://localhost:9000'' (Some ''''))
           (Retrieve_file ''file_1'') example_world))
     = [[]]"
  by (simp add: snd_retrieve_file build_request_def FileClient_init_def)

text \<open>
  Claim C7, amended. Every request issued by any method of a client constructed with a
  non-empty credential \<open>s\<close> carries \<open>Authorization: Bearer s\<close>; every request of a client
  constructed without a credential carries no Authorization header.
\<close>

theorem authorization_header:
  assumes "s \<noteq> []"
  shows "list_all (\<lambda>q. map_of (headers q) ''Authorization'' = Some (''Bearer '' @ s))
           (issued w (world_after env (FileClient_init b (Some s)) c w)) \<and>
         list_all (\<lambda>q. map_of (headers q) ''Authorization'' = None)
           (issued w (world_after env (FileClient_init b None) c w))"
  using assms
    issued_headers [of "FileClient_init b (Some s)" w env c]
    issued_headers [of "FileClient_init b None" w env c]
  by (simp add: FileClient_init_def list_all_iff)

theorem authorization_header_witness:
  "''key'' \<noteq> [] \<and>
   list_all (\<lambda>q. map_of (headers q) ''Authorization'' = Some ''Bearer key'')
     (issued example_world
        (world_after (example_env (Inr \<lparr>status_code = 200, content = []\<rparr>) (Inr example_record))
           (FileClient_init ''http://localhost:9000'' (Some ''key''))
           (Delete_file ''file_1'') example_world)) \<and>
   issued example_world
        (world_after (example_env (Inr \<lparr>status_code = 200, content = []\<rparr>) (Inr example_record))
           (FileClient_init ''http://localhost:9000'' (Some ''key''))
           (Delete_file ''file_1'') example_world) \<noteq> []"
  using authorization_header
    [of "''key''" example_world
        "example_env (Inr \<lparr>status_code = 200, content = []\<rparr>) (Inr example_record)"
        "''http://localhost:9000''" "Delete_file ''file_1''"]
  by (simp add: snd_delete_file)

text \<open>
  Claim C10. A client constructed with the credential \<open>""\<close> has the \<open>httpx.Client\<close> of a
  client constructed with none, every call issues the same requests as with none, and no
  request carries an Authorization header. The client's headers have an Authorization
  entry exactly when the credential is a non-empty string.
\<close>

theorem empty_credential_as_none:
  "client (FileClient_init b (Some [])) = client (FileClient_init b None) \<and>
   issued w (world_after env (FileClient_init b (Some [])) c w)
     = issued w (world_after env (FileClient_init b None) c w) \<and>
   list_all (\<lambda>q. map_of (headers q) ''Authorization'' = None)
     (issued w (world_after env (FileClient_init b (Some [])) c w)) \<and>
   ((map_of (hc_headers (client (FileClient_init b k))) ''Authorization'' \<noteq> None)
      = (\<exists>s. k = Some s \<and> s \<noteq> []))"
proof -
  have same: "client (FileClient_init b (Some [])) = client (FileClient_init b None)"
    by (simp add: FileClient_init_def)
  have none: "list_all (\<lambda>q. map_of (headers q) ''Authorization'' = None)
     (issued w (world_after env (FileClient_init b (Some [])) c w))"
    using issued_headers [of "FileClient_init b (Some [])" w env c]
    by (simp add: FileClient_init_def list_all_iff)
  have only: "(map_of (hc_headers (client (FileClient_init b k))) ''Authorization'' \<noteq> None)
      = (\<exists>s. k = Some s \<and> s \<noteq> [])"
    by (cases k) (simp_all add: FileClient_init_def)
  from same none only issued_client [OF same] show ?thesis by simp
qed

theorem empty_credential_as_none_witness:
  "map (\<lambda>q. map_of (headers q) ''Authorization'')
     (issued example_world
        (world_after (example_env (Inr \<lparr>status_code = 200, content = []\<rparr>) (Inr example_record))
           (FileClient_init ''http://localhost:9000'' (Some ''''))
           (Get_signed_url ''file_1'') example_world))
     = [None] \<and>
   map_of (hc_headers (client (FileClient_init ''http://localhost:9000'' (Some ''key''))))
     ''Authorization'' = Some ''Bearer key''"
  using empty_credential_as_none
    [of "''http://localhost:9000''" example_world
        "example_env (Inr \<lparr>status_code = 200, content = []\<rparr>) (Inr example_record)"
        "Get_signed_url ''file_1''" "Some ''key''"]
  by (simp add: snd_get_signed_url build_request_def FileClient_init_def)

end
